theory Spec2Isabelle
  imports Main
begin

section \<open>Python values met by weather.py\<close>

text \<open>
  \<^verbatim>\<open>response.json()\<close> decodes a body into Python values. A \<^verbatim>\<open>str\<close> is its UTF-8 bytes.
  A \<^verbatim>\<open>float\<close> is carried as the text \<^verbatim>\<open>str()\<close> prints for it: the program only prints a
  float and tests it against zero. A \<^verbatim>\<open>dict\<close> is an association list in insertion order,
  read with \<^const>\<open>map_of\<close>; a decoded dict holds each key once.
\<close>

type_synonym py_float = string

datatype json =
    JNull
  | JBool bool
  | JInt int
  | JFloat py_float
  | JStr string
  | JArr "json list"
  | JObj "(string \<times> json) list"

text \<open>
  The exceptions the program can meet, all subclasses of \<^verbatim>\<open>Exception\<close>.
  \<open>SliceLookupError\<close> is what \<^verbatim>\<open>d[:5]\<close> raises on a dict: \<^verbatim>\<open>TypeError\<close> (unhashable slice)
  before Python 3.12 and \<^verbatim>\<open>KeyError\<close> from 3.12 on. Signals that are not an \<^verbatim>\<open>Exception\<close>
  (task cancellation, interpreter exit) are outside the model.
\<close>

datatype exn =
    KeyError
  | TypeError
  | AttributeError
  | SliceLookupError
  | HTTPStatusError
  | JSONDecodeError
  | TransportError
  | TimeoutException

text \<open>An expression either raises (\<open>Inl\<close>) or has a value (\<open>Inr\<close>); evaluation is left to right.\<close>

fun bind_exn :: "exn + 'a \<Rightarrow> ('a \<Rightarrow> exn + 'b) \<Rightarrow> exn + 'b" where
  "bind_exn (Inl e) f = Inl e"
| "bind_exn (Inr x) f = f x"

text \<open>A list comprehension \<^verbatim>\<open>[f(x) for x in xs]\<close>: the first raise ends it.\<close>

fun map_exn :: "('a \<Rightarrow> exn + 'b) \<Rightarrow> 'a list \<Rightarrow> exn + 'b list" where
  "map_exn f [] = Inr []"
| "map_exn f (x # xs) =
     bind_exn (f x) (\<lambda>y. bind_exn (map_exn f xs) (\<lambda>ys. Inr (y # ys)))"

text \<open>Truth value testing, \<^verbatim>\<open>bool(v)\<close>.\<close>

fun truthy :: "json \<Rightarrow> bool" where
  "truthy JNull = False"
| "truthy (JBool b) = b"
| "truthy (JInt i) = (i \<noteq> 0)"
| "truthy (JFloat s) = (s \<noteq> ''0.0'' \<and> s \<noteq> ''-0.0'')"
| "truthy (JStr s) = (s \<noteq> [])"
| "truthy (JArr xs) = (xs \<noteq> [])"
| "truthy (JObj kvs) = (kvs \<noteq> [])"

text \<open>\<^verbatim>\<open>not data\<close> for the result of a fetch, which may be \<^verbatim>\<open>None\<close>.\<close>

fun py_not :: "json option \<Rightarrow> bool" where
  "py_not None = True"
| "py_not (Some v) = (\<not> truthy v)"

fun startswith :: "string \<Rightarrow> string \<Rightarrow> bool" where
  "startswith s [] = True"
| "startswith [] (c # cs) = False"
| "startswith (x # xs) (c # cs) = (x = c \<and> startswith xs cs)"

fun substring_in :: "string \<Rightarrow> string \<Rightarrow> bool" where
  "substring_in k [] = (k = [])"
| "substring_in k (x # xs) = (startswith (x # xs) k \<or> substring_in k xs)"

text \<open>
  \<^verbatim>\<open>k in v\<close> for a string \<open>k\<close>: key membership on a dict, element equality on a list (a
  string equals only a string), substring search on a string, \<^verbatim>\<open>TypeError\<close> otherwise.
\<close>

fun py_in :: "string \<Rightarrow> json \<Rightarrow> exn + bool" where
  "py_in k (JObj kvs) = Inr (k \<in> set (map fst kvs))"
| "py_in k (JArr xs) = Inr (JStr k \<in> set xs)"
| "py_in k (JStr s) = Inr (substring_in k s)"
| "py_in k v = Inl TypeError"

text \<open>\<^verbatim>\<open>v[k]\<close> for a string \<open>k\<close>: only a dict can be subscripted by a string.\<close>

fun py_getitem :: "json \<Rightarrow> string \<Rightarrow> exn + json" where
  "py_getitem (JObj kvs) k = (case map_of kvs k of None \<Rightarrow> Inl KeyError | Some v \<Rightarrow> Inr v)"
| "py_getitem v k = Inl TypeError"

text \<open>\<^verbatim>\<open>v[a][b]\<close>.\<close>

definition py_getitem2 :: "json \<Rightarrow> string \<Rightarrow> string \<Rightarrow> exn + json" where
  "py_getitem2 v a b = bind_exn (py_getitem v a) (\<lambda>p. py_getitem p b)"

text \<open>\<^verbatim>\<open>v.get(k, d)\<close>: only a dict has the method.\<close>

fun py_get :: "json \<Rightarrow> string \<Rightarrow> json \<Rightarrow> exn + json" where
  "py_get (JObj kvs) k d = Inr (case map_of kvs k of None \<Rightarrow> d | Some v \<Rightarrow> v)"
| "py_get v k d = Inl AttributeError"

text \<open>
  \<^verbatim>\<open>v[:5]\<close>. A string is cut at five of its units; what the program does next with the
  pieces of a string does not depend on how it is cut (see \<open>py_iter\<close>).
\<close>

fun slice5 :: "json \<Rightarrow> exn + json" where
  "slice5 (JArr xs) = Inr (JArr (take 5 xs))"
| "slice5 (JStr s) = Inr (JStr (take 5 s))"
| "slice5 (JObj kvs) = Inl SliceLookupError"
| "slice5 v = Inl TypeError"

text \<open>
  \<^verbatim>\<open>for x in v\<close>: the elements of a list, the keys of a dict, the one-character strings
  of a string; anything else is not iterable.
\<close>

fun py_iter :: "json \<Rightarrow> exn + json list" where
  "py_iter (JArr xs) = Inr xs"
| "py_iter (JObj kvs) = Inr (map (\<lambda>kv. JStr (fst kv)) kvs)"
| "py_iter (JStr s) = Inr (map (\<lambda>c. JStr [c]) s)"
| "py_iter v = Inl TypeError"

subsection \<open>Printing a value inside an f-string\<close>

definition digit_char :: "nat \<Rightarrow> char" where
  "digit_char n = ''0123456789'' ! (n mod 10)"

function str_nat :: "nat \<Rightarrow> string" where
  "str_nat n = (if n < 10 then [digit_char n] else str_nat (n div 10) @ [digit_char n])"
  by pat_completeness auto
termination
  by (relation "measure id") auto

definition str_int :: "int \<Rightarrow> string" where
  "str_int i = (if i < 0 then CHR ''-'' # str_nat (nat (- i)) else str_nat (nat i))"

text \<open>
  \<^verbatim>\<open>str(v)\<close>, which is what \<^verbatim>\<open>{v}\<close> prints. A string prints as itself. The text of a list or
  a dict is Python's \<^verbatim>\<open>repr\<close>, which depends on the Unicode database; it is the parameter
  \<open>rc\<close> of everything that prints.
\<close>

type_synonym renderer = "json \<Rightarrow> string"

fun py_str :: "renderer \<Rightarrow> json \<Rightarrow> string" where
  "py_str rc JNull = ''None''"
| "py_str rc (JBool b) = (if b then ''True'' else ''False'')"
| "py_str rc (JInt i) = str_int i"
| "py_str rc (JFloat s) = s"
| "py_str rc (JStr s) = s"
| "py_str rc (JArr xs) = rc (JArr xs)"
| "py_str rc (JObj kvs) = rc (JObj kvs)"

text \<open>\<^verbatim>\<open>sep.join(xs)\<close>.\<close>

fun join :: "string \<Rightarrow> string list \<Rightarrow> string" where
  "join sep [] = []"
| "join sep [x] = x"
| "join sep (x # y # ys) = x @ sep @ join sep (y # ys)"

section \<open>The fetcher\<close>

definition NWS_API_BASE :: string where
  "NWS_API_BASE = ''https://api.weather.gov''"

text \<open>
  What \<^verbatim>\<open>client.get(url, headers=headers, timeout=30.0)\<close> comes back with: an exception
  (a transport fault, the timeout, a URL that is not a string) or a response, of which the
  program reads the status and the decoded body (\<open>None\<close> when the body is not JSON).
  The headers and the timeout are the same in every call. The network answers a request
  knowing the requests made before it.
\<close>

record response =
  status_code :: nat
  body_json :: "json option"

type_synonym network = "json list \<Rightarrow> json \<Rightarrow> exn + response"

text \<open>
  Modelled from the spec: httpx's \<^verbatim>\<open>Response.raise_for_status\<close> is not in the repository;
  section 4.1 of the spec has every non-2xx status fail.
\<close>

definition raise_for_status :: "response \<Rightarrow> exn + unit" where
  "raise_for_status r =
     (if 200 \<le> status_code r \<and> status_code r \<le> 299 then Inr () else Inl HTTPStatusError)"

definition response_json :: "response \<Rightarrow> exn + json" where
  "response_json r = (case body_json r of None \<Rightarrow> Inl JSONDecodeError | Some v \<Rightarrow> Inr v)"

text \<open>
  The body of the \<^verbatim>\<open>try\<close> block: the request, the status check, the decoding.
\<close>

definition try_request :: "network \<Rightarrow> json \<Rightarrow> json list \<Rightarrow> exn + json" where
  "try_request net url log =
     bind_exn (net log url) (\<lambda>response.
     bind_exn (raise_for_status response) (\<lambda>_.
     response_json response))"

text \<open>
  \<^verbatim>\<open>make_nws_request\<close>: the \<^verbatim>\<open>try\<close> block under \<^verbatim>\<open>except Exception: return None\<close>. The
  first component is what the caller gets (\<open>Inl\<close> would be an exception reaching it), the
  second the list of URLs requested so far, this one added.
\<close>

definition make_nws_request ::
  "network \<Rightarrow> json \<Rightarrow> json list \<Rightarrow> (exn + json option) \<times> json list" where
  "make_nws_request net url log =
     (case try_request net url log of Inl e \<Rightarrow> Inr None | Inr v \<Rightarrow> Inr (Some v),
      log @ [url])"

section \<open>The formatter\<close>

definition format_alert :: "renderer \<Rightarrow> json \<Rightarrow> exn + string" where
  "format_alert rc feature =
     bind_exn (py_getitem feature ''properties'') (\<lambda>props.
     bind_exn (py_get props ''event'' (JStr ''Unknown'')) (\<lambda>event.
     bind_exn (py_get props ''areaDesc'' (JStr ''Unknown'')) (\<lambda>areaDesc.
     bind_exn (py_get props ''severity'' (JStr ''Unknown'')) (\<lambda>severity.
     bind_exn (py_get props ''description'' (JStr ''No description available'')) (\<lambda>description.
     bind_exn (py_get props ''instruction'' (JStr ''No specific instructions provided''))
       (\<lambda>instruction.
     Inr (''Event: '' @ py_str rc event @ ''\<newline>''
        @ ''Area: '' @ py_str rc areaDesc @ ''\<newline>''
        @ ''Severity: '' @ py_str rc severity @ ''\<newline>''
        @ ''Description: '' @ py_str rc description @ ''\<newline>''
        @ ''Instructions: '' @ py_str rc instruction)))))))"

text \<open>The degree sign of the forecast block, U+00B0, in UTF-8.\<close>

definition degree_sign :: string where
  "degree_sign = [CHR 0xC2, CHR 0xB0]"

text \<open>The f-string in the loop of \<^verbatim>\<open>get_forecast\<close>, for one period.\<close>

definition format_period :: "renderer \<Rightarrow> json \<Rightarrow> exn + string" where
  "format_period rc period =
     bind_exn (py_getitem period ''name'') (\<lambda>name.
     bind_exn (py_getitem period ''temperature'') (\<lambda>temperature.
     bind_exn (py_getitem period ''temperatureUnit'') (\<lambda>temperatureUnit.
     bind_exn (py_getitem period ''windSpeed'') (\<lambda>windSpeed.
     bind_exn (py_getitem period ''windDirection'') (\<lambda>windDirection.
     bind_exn (py_getitem period ''detailedForecast'') (\<lambda>detailedForecast.
     Inr (py_str rc name @ '':\<newline>''
        @ ''  Temperature: '' @ py_str rc temperature @ degree_sign
            @ py_str rc temperatureUnit @ ''\<newline>''
        @ ''  Wind: '' @ py_str rc windSpeed @ '' '' @ py_str rc windDirection @ ''\<newline>''
        @ ''  Forecast: '' @ py_str rc detailedForecast)))))))"

text \<open>The loop of \<^verbatim>\<open>get_forecast\<close>: each block is appended to \<open>forecasts\<close>.\<close>

fun forecast_loop :: "renderer \<Rightarrow> json list \<Rightarrow> string list \<Rightarrow> exn + string list" where
  "forecast_loop rc [] forecasts = Inr forecasts"
| "forecast_loop rc (period # rest) forecasts =
     bind_exn (format_period rc period) (\<lambda>forecast.
     forecast_loop rc rest (forecasts @ [forecast]))"

section \<open>The tools\<close>

definition separator :: string where
  "separator = ''\<newline>---\<newline>''"

text \<open>
  \<^verbatim>\<open>get_alerts\<close>. The line printed to standard output is left out. \<^verbatim>\<open>data["features"]\<close> is
  read twice by the source, with the same result.
\<close>

definition alerts_url :: "string \<Rightarrow> string" where
  "alerts_url state = NWS_API_BASE @ ''/alerts/active/area/'' @ state"

definition get_alerts ::
  "renderer \<Rightarrow> network \<Rightarrow> string \<Rightarrow> json list \<Rightarrow> (exn + string) \<times> json list" where
  "get_alerts rc net state log =
     (case make_nws_request net (JStr (alerts_url state)) log of
        (Inl e, log') \<Rightarrow> (Inl e, log')
      | (Inr data, log') \<Rightarrow>
          (if py_not data then Inr ''Unable to fetch alerts or no alerts found.''
           else case data of
             None \<Rightarrow> Inr ''Unable to fetch alerts or no alerts found.''
           | Some d \<Rightarrow>
               bind_exn (py_in ''features'' d) (\<lambda>present.
               if \<not> present then Inr ''Unable to fetch alerts or no alerts found.''
               else
                 bind_exn (py_getitem d ''features'') (\<lambda>features.
                 if \<not> truthy features then Inr ''No active alerts for this state.''
                 else
                   bind_exn (py_iter features) (\<lambda>fs.
                   bind_exn (map_exn (format_alert rc) fs) (\<lambda>alerts.
                   Inr (join separator alerts))))),
           log'))"

text \<open>
  \<^verbatim>\<open>get_forecast\<close>. The coordinates are floats, so they arrive as the text an f-string
  prints for them.
\<close>

definition points_url :: "py_float \<Rightarrow> py_float \<Rightarrow> string" where
  "points_url latitude longitude = NWS_API_BASE @ ''/points/'' @ latitude @ '','' @ longitude"

text \<open>Lines 67 to 77: from the decoded forecast to the reply.\<close>

definition forecast_reply :: "renderer \<Rightarrow> json \<Rightarrow> exn + string" where
  "forecast_reply rc forecast_data =
     bind_exn (py_getitem2 forecast_data ''properties'' ''periods'') (\<lambda>periods.
     bind_exn (slice5 periods) (\<lambda>first5.
     bind_exn (py_iter first5) (\<lambda>ps.
     bind_exn (forecast_loop rc ps []) (\<lambda>forecasts.
     Inr (join separator forecasts)))))"

definition get_forecast ::
  "renderer \<Rightarrow> network \<Rightarrow> py_float \<Rightarrow> py_float \<Rightarrow> json list \<Rightarrow> (exn + string) \<times> json list"
  where
  "get_forecast rc net latitude longitude log =
     (case make_nws_request net (JStr (points_url latitude longitude)) log of
        (Inl e, log1) \<Rightarrow> (Inl e, log1)
      | (Inr points_data, log1) \<Rightarrow>
          (if py_not points_data
           then (Inr ''Unable to fetch forecast data for this location.'', log1)
           else case points_data of
             None \<Rightarrow> (Inr ''Unable to fetch forecast data for this location.'', log1)
           | Some pd \<Rightarrow>
               (case py_getitem2 pd ''properties'' ''forecast'' of
                  Inl e \<Rightarrow> (Inl e, log1)
                | Inr forecast_url \<Rightarrow>
                    (case make_nws_request net forecast_url log1 of
                       (Inl e, log2) \<Rightarrow> (Inl e, log2)
                     | (Inr forecast_data, log2) \<Rightarrow>
                         (if py_not forecast_data
                          then Inr ''Unable to fetch detailed forecast.''
                          else case forecast_data of
                            None \<Rightarrow> Inr ''Unable to fetch detailed forecast.''
                          | Some fd \<Rightarrow> forecast_reply rc fd,
                          log2)))))"

definition plan_the_evening :: "string \<Rightarrow> string" where
  "plan_the_evening text =
     ''Plan the evening based on the weather forecast:\<newline>\<newline>'' @ text"

section \<open>Vocabulary of the specification\<close>

subsection \<open>Blocks and separator lines\<close>

text \<open>
  What the joining rule of the specification describes: the blocks in order, one separator
  between each two neighbours, the separator being a line of three dashes.
\<close>

datatype piece = Block string | Sep

fun piece_text :: "piece \<Rightarrow> string" where
  "piece_text (Block b) = b"
| "piece_text Sep = ''\<newline>---\<newline>''"

fun is_sep :: "piece \<Rightarrow> bool" where
  "is_sep Sep = True"
| "is_sep (Block b) = False"

fun spec_pieces :: "string list \<Rightarrow> piece list" where
  "spec_pieces [] = []"
| "spec_pieces [b] = [Block b]"
| "spec_pieces (b # c # bs) = Block b # Sep # spec_pieces (c # bs)"

subsection \<open>The lines of a text\<close>

text \<open>The lines of a string: the stretches between its newline characters.\<close>

fun split_lines :: "string \<Rightarrow> string list" where
  "split_lines [] = [[]]"
| "split_lines (c # cs) =
     (if c = CHR 0x0A then [] # split_lines cs
      else case split_lines cs of [] \<Rightarrow> [[c]] | l # ls \<Rightarrow> (c # l) # ls)"

text \<open>The number of lines of a text that are three dashes and nothing else.\<close>

definition separator_lines :: "string \<Rightarrow> nat" where
  "separator_lines text = length (filter (\<lambda>l. l = ''---'') (split_lines text))"

subsection \<open>The five lines of an alert\<close>

text \<open>The printed value of a field of \<open>props\<close>, or the default \<open>d\<close> when the key is missing.\<close>

definition alert_field :: "renderer \<Rightarrow> (string \<times> json) list \<Rightarrow> string \<Rightarrow> string \<Rightarrow> string" where
  "alert_field rc props k d = (case map_of props k of None \<Rightarrow> d | Some v \<Rightarrow> py_str rc v)"

definition alert_values :: "renderer \<Rightarrow> (string \<times> json) list \<Rightarrow> string list" where
  "alert_values rc props =
     [alert_field rc props ''event'' ''Unknown'',
      alert_field rc props ''areaDesc'' ''Unknown'',
      alert_field rc props ''severity'' ''Unknown'',
      alert_field rc props ''description'' ''No description available'',
      alert_field rc props ''instruction'' ''No specific instructions provided'']"

definition alert_labels :: "string list" where
  "alert_labels = [''Event'', ''Area'', ''Severity'', ''Description'', ''Instructions'']"

definition alert_lines :: "renderer \<Rightarrow> (string \<times> json) list \<Rightarrow> string list" where
  "alert_lines rc props =
     map2 (\<lambda>label v. label @ '': '' @ v) alert_labels (alert_values rc props)"

subsection \<open>Well-formed forecast periods\<close>

definition period_fields :: "string list" where
  "period_fields =
     [''name'', ''temperature'', ''temperatureUnit'', ''windSpeed'', ''windDirection'',
      ''detailedForecast'']"

text \<open>A period is well formed when it is a dict that holds the six fields.\<close>

fun well_formed_period :: "json \<Rightarrow> bool" where
  "well_formed_period (JObj kvs) = list_all (\<lambda>k. map_of kvs k \<noteq> None) period_fields"
| "well_formed_period v = False"

fun is_dict :: "json \<Rightarrow> bool" where
  "is_dict (JObj kvs) = True"
| "is_dict v = False"

text \<open>The printed values of the six fields of a period, and a period none of whose printed
  values holds a newline.\<close>

definition period_values :: "renderer \<Rightarrow> (string \<times> json) list \<Rightarrow> string list" where
  "period_values rc kvs =
     map (\<lambda>k. case map_of kvs k of None \<Rightarrow> [] | Some v \<Rightarrow> py_str rc v) period_fields"

fun plain_period :: "renderer \<Rightarrow> json \<Rightarrow> bool" where
  "plain_period rc (JObj kvs) = (CHR 0x0A \<notin> set (concat (period_values rc kvs)))"
| "plain_period rc v = True"

text \<open>A points response that holds \<open>properties.forecast\<close>: a dict whose \<open>properties\<close> is a dict
  with the key \<open>forecast\<close>.\<close>

fun holds_forecast_url :: "json \<Rightarrow> bool" where
  "holds_forecast_url (JObj kvs) =
     (case map_of kvs ''properties'' of
        Some (JObj props) \<Rightarrow> map_of props ''forecast'' \<noteq> None
      | _ \<Rightarrow> False)"
| "holds_forecast_url v = False"

subsection \<open>Networks and values for the examples\<close>

text \<open>A network that answers the i-th request made with the i-th entry of a script.\<close>

definition net_script :: "(exn + response) list \<Rightarrow> network" where
  "net_script answers log url =
     (if length log < length answers then answers ! length log else Inl TransportError)"

definition ok_response :: "json \<Rightarrow> exn + response" where
  "ok_response v = Inr \<lparr>status_code = 200, body_json = Some v\<rparr>"

text \<open>A stand-in for \<^verbatim>\<open>repr\<close> in examples that print no list and no dict.\<close>

definition blank_repr :: renderer where
  "blank_repr v = []"

definition example_period :: json where
  "example_period =
     JObj [(''name'', JStr ''Tonight''), (''temperature'', JInt 54), (''temperatureUnit'', JStr ''F''),
           (''windSpeed'', JStr ''5 mph''), (''windDirection'', JStr ''NW''),
           (''detailedForecast'', JStr ''Clear.'')]"

definition example_points :: json where
  "example_points = JObj [(''properties'', JObj [(''forecast'', JStr ''https://api.weather.gov/f'')])]"

definition example_forecast :: "json list \<Rightarrow> json" where
  "example_forecast periods = JObj [(''properties'', JObj [(''periods'', JArr periods)])]"

definition example_block :: string where
  "example_block =
     ''Tonight:\<newline>  Temperature: 54'' @ degree_sign @ ''F\<newline>  Wind: 5 mph NW\<newline>  Forecast: Clear.''"

definition example_net :: "json list \<Rightarrow> network" where
  "example_net periods =
     net_script [ok_response example_points, ok_response (example_forecast periods)]"

definition example_alert :: "string \<Rightarrow> json" where
  "example_alert event = JObj [(''properties'', JObj [(''event'', JStr event)])]"

definition example_alert_block :: "string \<Rightarrow> string" where
  "example_alert_block event =
     ''Event: '' @ event @ ''\<newline>Area: Unknown\<newline>Severity: Unknown\<newline>Description: No description available\<newline>Instructions: No specific instructions provided''"

section \<open>The joining rule\<close>

lemma join_pieces: "join ''\<newline>---\<newline>'' bs = concat (map piece_text (spec_pieces bs))"
  by (induction bs rule: spec_pieces.induct) simp_all

lemma count_seps: "length (filter is_sep (spec_pieces bs)) = length bs - 1"
  by (induction bs rule: spec_pieces.induct) simp_all

lemma blocks_of_pieces: "filter (\<lambda>p. \<not> is_sep p) (spec_pieces bs) = map Block bs"
  by (induction bs rule: spec_pieces.induct) simp_all

lemma first_piece: "take 1 (spec_pieces bs) = map Block (take 1 bs)"
  by (induction bs rule: spec_pieces.induct) simp_all

lemma spec_pieces_snoc:
  "spec_pieces (bs @ [b]) = (if bs = [] then [Block b] else spec_pieces bs @ [Sep, Block b])"
  by (induction bs rule: spec_pieces.induct) simp_all

lemma last_piece: "take 1 (rev (spec_pieces bs)) = map Block (take 1 (rev bs))"
  by (induction bs rule: rev_induct) (simp_all add: spec_pieces_snoc)

lemma join_append:
  "join sep ((x # xs) @ (y # ys)) = join sep (x # xs) @ sep @ join sep (y # ys)"
  by (induction xs arbitrary: x) simp_all

section \<open>Alerts\<close>

lemma split_lines_plain: "CHR 0x0A \<notin> set a \<Longrightarrow> split_lines a = [a]"
  by (induction a) auto

lemma split_lines_line:
  "CHR 0x0A \<notin> set a \<Longrightarrow> split_lines (a @ CHR 0x0A # rest) = a # split_lines rest"
  by (induction a) auto

lemma split_lines_join:
  "CHR 0x0A \<notin> set (concat ls) \<Longrightarrow> ls \<noteq> [] \<Longrightarrow> split_lines (join ''\<newline>'' ls) = ls"
proof (induction ls rule: induct_list012)
  case 1
  then show ?case by simp
next
  case (2 x)
  then show ?case by (simp add: split_lines_plain)
next
  case (3 x y ys)
  then show ?case using split_lines_line [of x "join ''\<newline>'' (y # ys)"] by simp
qed

lemma format_alert_lines:
  "map_of fs ''properties'' = Some (JObj ps) \<Longrightarrow>
   format_alert rc (JObj fs) = Inr (join ''\<newline>'' (alert_lines rc ps))"
  by (simp add: format_alert_def alert_lines_def alert_values_def alert_labels_def alert_field_def
      split: option.splits)

text \<open>
  C2, as stated, fails: a field value is printed as it is, so a description of two lines
  makes a block of six lines.
\<close>

theorem format_alert_six_lines:
  "format_alert blank_repr (JObj [(''properties'', JObj [(''description'', JStr ''a\<newline>b'')])])
     = Inr ''Event: Unknown\<newline>Area: Unknown\<newline>Severity: Unknown\<newline>Description: a\<newline>b\<newline>Instructions: No specific instructions provided''
   \<and> split_lines ''Event: Unknown\<newline>Area: Unknown\<newline>Severity: Unknown\<newline>Description: a\<newline>b\<newline>Instructions: No specific instructions provided''
     = [''Event: Unknown'', ''Area: Unknown'', ''Severity: Unknown'', ''Description: a'', ''b'',
        ''Instructions: No specific instructions provided'']"
  by (simp add: format_alert_def)

text \<open>
  C2, amended. For a feature whose \<open>properties\<close> is a dict, \<open>format_alert\<close> returns, without
  raising, five segments joined by single newlines, in the order Event, Area, Severity,
  Description, Instructions, each \<open>Label: value\<close>, where the value is the printed field or
  its default when the key is missing. When no printed value holds a newline the text has
  exactly these five lines. With the five keys missing the text is the block of the five
  defaults.
\<close>

theorem format_alert_block:
  assumes "map_of fs ''properties'' = Some (JObj ps)"
  shows "format_alert rc (JObj fs) = Inr (join ''\<newline>'' (alert_lines rc ps))
     \<and> length (alert_lines rc ps) = 5
     \<and> (CHR 0x0A \<notin> set (concat (alert_values rc ps)) \<longrightarrow>
          split_lines (join ''\<newline>'' (alert_lines rc ps)) = alert_lines rc ps)
     \<and> (map_of ps ''event'' = None \<and> map_of ps ''areaDesc'' = None \<and> map_of ps ''severity'' = None
          \<and> map_of ps ''description'' = None \<and> map_of ps ''instruction'' = None \<longrightarrow>
          format_alert rc (JObj fs) =
            Inr ''Event: Unknown\<newline>Area: Unknown\<newline>Severity: Unknown\<newline>Description: No description available\<newline>Instructions: No specific instructions provided'')"
proof (intro conjI impI)
  show "format_alert rc (JObj fs) = Inr (join ''\<newline>'' (alert_lines rc ps))"
    using assms by (rule format_alert_lines)
  show "length (alert_lines rc ps) = 5"
    by (simp add: alert_lines_def alert_values_def alert_labels_def)
next
  assume "CHR 0x0A \<notin> set (concat (alert_values rc ps))"
  then have "CHR 0x0A \<notin> set (concat (alert_lines rc ps))"
    by (simp add: alert_lines_def alert_values_def alert_labels_def)
  moreover have "alert_lines rc ps \<noteq> []"
    by (simp add: alert_lines_def alert_values_def alert_labels_def)
  ultimately show "split_lines (join ''\<newline>'' (alert_lines rc ps)) = alert_lines rc ps"
    by (rule split_lines_join)
next
  assume "map_of ps ''event'' = None \<and> map_of ps ''areaDesc'' = None \<and> map_of ps ''severity'' = None
          \<and> map_of ps ''description'' = None \<and> map_of ps ''instruction'' = None"
  then show "format_alert rc (JObj fs) =
            Inr ''Event: Unknown\<newline>Area: Unknown\<newline>Severity: Unknown\<newline>Description: No description available\<newline>Instructions: No specific instructions provided''"
    using assms by (simp add: format_alert_def)
qed

theorem format_alert_block_witness:
  "format_alert blank_repr (JObj [(''properties'', JObj [])]) =
     Inr ''Event: Unknown\<newline>Area: Unknown\<newline>Severity: Unknown\<newline>Description: No description available\<newline>Instructions: No specific instructions provided''
   \<and> format_alert blank_repr
        (JObj [(''properties'', JObj [(''event'', JStr ''Flood Warning''), (''severity'', JNull)])]) =
     Inr (join ''\<newline>'' [''Event: Flood Warning'', ''Area: Unknown'', ''Severity: None'',
       ''Description: No description available'',
       ''Instructions: No specific instructions provided''])
   \<and> split_lines (join ''\<newline>'' [''Event: Flood Warning'', ''Area: Unknown'', ''Severity: None'',
       ''Description: No description available'',
       ''Instructions: No specific instructions provided''])
     = [''Event: Flood Warning'', ''Area: Unknown'', ''Severity: None'',
       ''Description: No description available'',
       ''Instructions: No specific instructions provided'']"
  using format_alert_block [where fs = "[(''properties'', JObj [])]" and ps = "[]"
      and rc = blank_repr]
    format_alert_block [where
      fs = "[(''properties'', JObj [(''event'', JStr ''Flood Warning''), (''severity'', JNull)])]"
      and ps = "[(''event'', JStr ''Flood Warning''), (''severity'', JNull)]" and rc = blank_repr]
  by (simp add: alert_lines_def alert_values_def alert_labels_def alert_field_def)

text \<open>
  C8, as stated, fails: \<^verbatim>\<open>feature["properties"]\<close> is not the only place where \<open>format_alert\<close>
  can fail. With \<open>properties\<close> present but \<open>null\<close> the lookup succeeds and the first
  \<^verbatim>\<open>props.get\<close> raises \<open>AttributeError\<close>.
\<close>

theorem format_alert_null_properties:
  "py_getitem (JObj [(''properties'', JNull)]) ''properties'' = Inr JNull
   \<and> format_alert blank_repr (JObj [(''properties'', JNull)]) = Inl AttributeError"
  by (simp add: format_alert_def)

text \<open>
  C8, amended. A feature that is a dict without the key \<open>properties\<close> makes \<open>format_alert\<close>
  raise \<open>KeyError\<close> and return no block of defaults. A feature whose \<open>properties\<close> is a dict
  never makes it raise. A feature whose \<open>properties\<close> is there but is not a dict makes it
  raise \<open>AttributeError\<close> at \<^verbatim>\<open>props.get\<close>, and a feature that is not a dict makes it raise
  \<open>TypeError\<close> at \<^verbatim>\<open>feature["properties"]\<close>: the function has these two partial points,
  and the first is the only one for features whose \<open>properties\<close> is a dict when it is there.
\<close>

theorem format_alert_partial_points:
  "(map_of fs ''properties'' = None \<longrightarrow> format_alert rc (JObj fs) = Inl KeyError)
   \<and> (map_of fs ''properties'' = Some (JObj ps) \<longrightarrow>
        format_alert rc (JObj fs) = Inr (join ''\<newline>'' (alert_lines rc ps)))
   \<and> (map_of fs ''properties'' = Some v \<and> \<not> is_dict v \<longrightarrow>
        format_alert rc (JObj fs) = Inl AttributeError)
   \<and> (\<not> is_dict feature \<longrightarrow> format_alert rc feature = Inl TypeError)"
proof (intro conjI impI)
  assume "map_of fs ''properties'' = None"
  then show "format_alert rc (JObj fs) = Inl KeyError"
    by (simp add: format_alert_def)
next
  assume "map_of fs ''properties'' = Some (JObj ps)"
  then show "format_alert rc (JObj fs) = Inr (join ''\<newline>'' (alert_lines rc ps))"
    by (rule format_alert_lines)
next
  assume "map_of fs ''properties'' = Some v \<and> \<not> is_dict v"
  then show "format_alert rc (JObj fs) = Inl AttributeError"
    by (cases v) (simp_all add: format_alert_def)
next
  assume "\<not> is_dict feature"
  then show "format_alert rc feature = Inl TypeError"
    by (cases feature) (simp_all add: format_alert_def)
qed

theorem format_alert_partial_points_witness:
  "format_alert blank_repr (JObj [(''id'', JStr ''x'')]) = Inl KeyError
   \<and> format_alert blank_repr (JObj []) = Inl KeyError
   \<and> format_alert blank_repr (JObj [(''id'', JStr ''x''), (''properties'', JObj [])])
      = Inr (join ''\<newline>'' (alert_lines blank_repr []))
   \<and> format_alert blank_repr (JObj [(''properties'', JArr [])]) = Inl AttributeError
   \<and> format_alert blank_repr (JStr ''properties'') = Inl TypeError"
  using format_alert_partial_points [where fs = "[(''id'', JStr ''x'')]" and rc = blank_repr]
    format_alert_partial_points [where fs = "[]" and rc = blank_repr]
    format_alert_partial_points [where fs = "[(''id'', JStr ''x''), (''properties'', JObj [])]"
      and ps = "[]" and rc = blank_repr]
    format_alert_partial_points [where fs = "[(''properties'', JArr [])]" and v = "JArr []"
      and rc = blank_repr]
    format_alert_partial_points [where feature = "JStr ''properties''" and rc = blank_repr]
  by simp

section \<open>The fetcher absorbs every failure\<close>

lemma make_nws_request_pair:
  "fst (make_nws_request net url log) = r \<Longrightarrow> make_nws_request net url log = (r, log @ [url])"
  by (simp add: make_nws_request_def)

text \<open>
  C4. For every URL and every answer of the network \<open>make_nws_request\<close> returns to its
  caller and raises nothing. An exception of the request (a transport fault, the timeout),
  a status outside 200..299 and a body that is not JSON each give \<open>None\<close>; a status in
  200..299 with a body that decodes to \<open>v\<close> gives \<open>v\<close>.
\<close>

theorem make_nws_request_absorbs:
  "(\<exists>data. fst (make_nws_request net url log) = Inr data)
   \<and> (net log url = Inl e \<longrightarrow> fst (make_nws_request net url log) = Inr None)
   \<and> (net log url = Inr r \<and> (status_code r < 200 \<or> 299 < status_code r) \<longrightarrow>
        fst (make_nws_request net url log) = Inr None)
   \<and> (net log url = Inr r \<and> body_json r = None \<longrightarrow>
        fst (make_nws_request net url log) = Inr None)
   \<and> (net log url = Inr r \<and> 200 \<le> status_code r \<and> status_code r \<le> 299 \<and> body_json r = Some v
        \<longrightarrow> fst (make_nws_request net url log) = Inr (Some v))"
  by (auto simp: make_nws_request_def try_request_def raise_for_status_def response_json_def
      split: sum.splits)

theorem make_nws_request_absorbs_witness:
  "fst (make_nws_request (net_script [Inl TimeoutException]) (JStr ''u'') []) = Inr None
   \<and> fst (make_nws_request (net_script [Inl TransportError]) (JStr ''u'') []) = Inr None
   \<and> fst (make_nws_request
        (net_script [Inr \<lparr>status_code = 404, body_json = Some (JObj [])\<rparr>]) (JStr ''u'') [])
      = Inr None
   \<and> fst (make_nws_request
        (net_script [Inr \<lparr>status_code = 200, body_json = None\<rparr>]) (JStr ''u'') [])
      = Inr None
   \<and> fst (make_nws_request
        (net_script [Inr \<lparr>status_code = 200, body_json = Some (JObj [(''features'', JArr [])])\<rparr>])
        (JStr ''u'') [])
      = Inr (Some (JObj [(''features'', JArr [])]))"
  using make_nws_request_absorbs [where net = "net_script [Inl TimeoutException]"
      and url = "JStr ''u''" and log = "[]" and e = TimeoutException]
    make_nws_request_absorbs [where net = "net_script [Inl TransportError]"
      and url = "JStr ''u''" and log = "[]" and e = TransportError]
    make_nws_request_absorbs [where
      net = "net_script [Inr \<lparr>status_code = 404, body_json = Some (JObj [])\<rparr>]"
      and url = "JStr ''u''" and log = "[]"
      and r = "\<lparr>status_code = 404, body_json = Some (JObj [])\<rparr>"]
    make_nws_request_absorbs [where
      net = "net_script [Inr \<lparr>status_code = 200, body_json = None\<rparr>]"
      and url = "JStr ''u''" and log = "[]"
      and r = "\<lparr>status_code = 200, body_json = None\<rparr>"]
    make_nws_request_absorbs [where
      net = "net_script [Inr \<lparr>status_code = 200, body_json = Some (JObj [(''features'', JArr [])])\<rparr>]"
      and url = "JStr ''u''" and log = "[]"
      and r = "\<lparr>status_code = 200, body_json = Some (JObj [(''features'', JArr [])])\<rparr>"
      and v = "JObj [(''features'', JArr [])]"]
  by (simp add: net_script_def)

section \<open>get_alerts\<close>

lemma py_in_dict: "py_in k (JObj kvs) = Inr (map_of kvs k \<noteq> None)"
  by (simp add: map_of_eq_None_iff)

text \<open>
  C1. When the alerts fetch returns \<open>None\<close>, or a dict without the key \<open>features\<close>,
  \<open>get_alerts\<close> returns "Unable to fetch alerts or no alerts found."; when it returns a
  dict whose \<open>features\<close> is the empty list, \<open>get_alerts\<close> returns "No active alerts for
  this state."; the two strings differ.
\<close>

theorem get_alerts_zero_alert_messages:
  "(fst (make_nws_request net (JStr (alerts_url st)) log) = Inr None \<longrightarrow>
      fst (get_alerts rc net st log) = Inr ''Unable to fetch alerts or no alerts found.'')
   \<and> (fst (make_nws_request net (JStr (alerts_url st)) log) = Inr (Some (JObj kvs))
        \<and> map_of kvs ''features'' = None \<longrightarrow>
      fst (get_alerts rc net st log) = Inr ''Unable to fetch alerts or no alerts found.'')
   \<and> (fst (make_nws_request net (JStr (alerts_url st)) log) = Inr (Some (JObj kvs))
        \<and> map_of kvs ''features'' = Some (JArr []) \<longrightarrow>
      fst (get_alerts rc net st log) = Inr ''No active alerts for this state.'')
   \<and> ''Unable to fetch alerts or no alerts found.'' \<noteq> ''No active alerts for this state.''"
proof (intro conjI impI)
  assume "fst (make_nws_request net (JStr (alerts_url st)) log) = Inr None"
  then have "make_nws_request net (JStr (alerts_url st)) log
      = (Inr None, log @ [JStr (alerts_url st)])"
    by (rule make_nws_request_pair)
  then show "fst (get_alerts rc net st log) = Inr ''Unable to fetch alerts or no alerts found.''"
    by (simp add: get_alerts_def)
next
  assume a: "fst (make_nws_request net (JStr (alerts_url st)) log) = Inr (Some (JObj kvs))
        \<and> map_of kvs ''features'' = None"
  then have "make_nws_request net (JStr (alerts_url st)) log
      = (Inr (Some (JObj kvs)), log @ [JStr (alerts_url st)])"
    by (intro make_nws_request_pair) simp
  with a show "fst (get_alerts rc net st log) = Inr ''Unable to fetch alerts or no alerts found.''"
    by (simp add: get_alerts_def py_in_dict del: py_in.simps)
next
  assume a: "fst (make_nws_request net (JStr (alerts_url st)) log) = Inr (Some (JObj kvs))
        \<and> map_of kvs ''features'' = Some (JArr [])"
  then have "make_nws_request net (JStr (alerts_url st)) log
      = (Inr (Some (JObj kvs)), log @ [JStr (alerts_url st)])"
    by (intro make_nws_request_pair) simp
  moreover from a have "kvs \<noteq> []" by auto
  ultimately show "fst (get_alerts rc net st log) = Inr ''No active alerts for this state.''"
    using a by (simp add: get_alerts_def py_in_dict del: py_in.simps)
qed simp

theorem get_alerts_zero_alert_messages_witness:
  "fst (get_alerts blank_repr (net_script [Inl TimeoutException]) ''CA'' [])
     = Inr ''Unable to fetch alerts or no alerts found.''
   \<and> fst (get_alerts blank_repr (net_script [ok_response (JObj [(''title'', JStr ''x'')])]) ''CA'' [])
     = Inr ''Unable to fetch alerts or no alerts found.''
   \<and> fst (get_alerts blank_repr (net_script [ok_response (JObj [(''features'', JArr [])])]) ''CA'' [])
     = Inr ''No active alerts for this state.''"
  using get_alerts_zero_alert_messages [where net = "net_script [Inl TimeoutException]"
      and st = "''CA''" and log = "[]" and rc = blank_repr]
    get_alerts_zero_alert_messages [where
      net = "net_script [ok_response (JObj [(''title'', JStr ''x'')])]"
      and st = "''CA''" and log = "[]" and rc = blank_repr and kvs = "[(''title'', JStr ''x'')]"]
    get_alerts_zero_alert_messages [where
      net = "net_script [ok_response (JObj [(''features'', JArr [])])]"
      and st = "''CA''" and log = "[]" and rc = blank_repr and kvs = "[(''features'', JArr [])]"]
  by (simp add: make_nws_request_def try_request_def raise_for_status_def response_json_def
      net_script_def ok_response_def)

section \<open>get_forecast\<close>

subsection \<open>The points fetch\<close>

text \<open>
  C5. When the points fetch returns \<open>None\<close>, \<open>get_forecast\<close> returns "Unable to fetch
  forecast data for this location." and the list of requests has grown by the points URL
  alone: no second request was made.
\<close>

theorem get_forecast_short_circuit:
  assumes "fst (make_nws_request net (JStr (points_url lat lon)) log) = Inr None"
  shows "get_forecast rc net lat lon log
     = (Inr ''Unable to fetch forecast data for this location.'',
        log @ [JStr (points_url lat lon)])"
  using make_nws_request_pair [OF assms] by (simp add: get_forecast_def)

theorem get_forecast_short_circuit_witness:
  "get_forecast blank_repr (net_script [Inl TransportError, ok_response (example_forecast [])])
      ''39.7456'' ''-97.0892'' []
     = (Inr ''Unable to fetch forecast data for this location.'',
        [JStr ''https://api.weather.gov/points/39.7456,-97.0892''])"
  using get_forecast_short_circuit [where
      net = "net_script [Inl TransportError, ok_response (example_forecast [])]"
      and lat = "''39.7456''" and lon = "''-97.0892''" and log = "[]" and rc = blank_repr]
  by (simp add: make_nws_request_def try_request_def net_script_def points_url_def
      NWS_API_BASE_def)

text \<open>
  C9. Let the points fetch return a dict in which the lookup of \<open>properties.forecast\<close>
  fails. When the dict is empty \<open>get_forecast\<close> returns "Unable to fetch forecast data for
  this location." and raises nothing; when it is not empty \<open>get_forecast\<close> raises the fault
  of the lookup. In both cases only the points URL was requested.
\<close>

theorem get_forecast_empty_points:
  assumes "fst (make_nws_request net (JStr (points_url lat lon)) log) = Inr (Some (JObj kvs))"
    and "py_getitem2 (JObj kvs) ''properties'' ''forecast'' = Inl e"
  shows "(kvs = [] \<longrightarrow> get_forecast rc net lat lon log
            = (Inr ''Unable to fetch forecast data for this location.'',
               log @ [JStr (points_url lat lon)]))
     \<and> (kvs \<noteq> [] \<longrightarrow>
          get_forecast rc net lat lon log = (Inl e, log @ [JStr (points_url lat lon)]))"
  using make_nws_request_pair [OF assms(1)] assms(2) by (simp add: get_forecast_def)

theorem get_forecast_empty_points_witness:
  "get_forecast blank_repr (net_script [ok_response (JObj [])]) ''39.7456'' ''-97.0892'' []
     = (Inr ''Unable to fetch forecast data for this location.'',
        [JStr (points_url ''39.7456'' ''-97.0892'')])
   \<and> get_forecast blank_repr (net_script [ok_response (JObj [(''id'', JStr ''x'')])])
        ''39.7456'' ''-97.0892'' []
     = (Inl KeyError, [JStr (points_url ''39.7456'' ''-97.0892'')])"
  using get_forecast_empty_points [where net = "net_script [ok_response (JObj [])]"
      and lat = "''39.7456''" and lon = "''-97.0892''" and log = "[]" and rc = blank_repr
      and kvs = "[]" and e = KeyError]
    get_forecast_empty_points [where net = "net_script [ok_response (JObj [(''id'', JStr ''x'')])]"
      and lat = "''39.7456''" and lon = "''-97.0892''" and log = "[]" and rc = blank_repr
      and kvs = "[(''id'', JStr ''x'')]" and e = KeyError]
  by (simp add: make_nws_request_def try_request_def raise_for_status_def response_json_def
      net_script_def ok_response_def py_getitem2_def)

subsection \<open>The forecast fetch and the periods\<close>

lemma forecast_loop_map:
  "forecast_loop rc ps acc = bind_exn (map_exn (format_period rc) ps) (\<lambda>bs. Inr (acc @ bs))"
proof (induction ps arbitrary: acc)
  case Nil
  then show ?case by simp
next
  case (Cons p ps)
  show ?case
  proof (cases "format_period rc p")
    case (Inl e)
    then show ?thesis by simp
  next
    case (Inr b)
    then show ?thesis
      by (cases "map_exn (format_period rc) ps") (simp_all add: Cons.IH)
  qed
qed

lemma format_period_wf: "well_formed_period p \<Longrightarrow> \<exists>b. format_period rc p = Inr b"
  by (cases p) (auto simp: format_period_def period_fields_def)

lemma format_period_ill:
  "\<not> well_formed_period p \<Longrightarrow>
   format_period rc p = Inl (if is_dict p then KeyError else TypeError)"
  by (cases p) (auto simp: format_period_def period_fields_def split: option.splits)

lemma map_exn_wf:
  "list_all well_formed_period ps \<Longrightarrow>
   \<exists>bs. map_exn (format_period rc) ps = Inr bs \<and> length bs = length ps"
proof (induction ps)
  case Nil
  then show ?case by simp
next
  case (Cons p ps)
  then obtain b bs where "format_period rc p = Inr b"
    and "map_exn (format_period rc) ps = Inr bs" and "length bs = length ps"
    using format_period_wf [of p rc] by auto
  then show ?case by simp
qed

lemma map_exn_ill:
  "\<not> list_all well_formed_period ps \<Longrightarrow>
   \<exists>e. map_exn (format_period rc) ps = Inl e \<and> (list_all is_dict ps \<longrightarrow> e = KeyError)"
proof (induction ps)
  case Nil
  then show ?case by simp
next
  case (Cons p ps)
  show ?case
  proof (cases "well_formed_period p")
    case True
    then obtain b where b: "format_period rc p = Inr b"
      using format_period_wf by blast
    from True Cons.prems have "\<not> list_all well_formed_period ps" by simp
    then obtain e where "map_exn (format_period rc) ps = Inl e"
      and "list_all is_dict ps \<longrightarrow> e = KeyError"
      using Cons.IH by blast
    with b show ?thesis by simp
  next
    case False
    then show ?thesis by (simp add: format_period_ill)
  qed
qed

lemma getitem2_truthy: "py_getitem2 v a b = Inr x \<Longrightarrow> truthy v"
  by (cases v) (auto simp: py_getitem2_def)

lemma get_forecast_stage2:
  assumes "fst (make_nws_request net (JStr (points_url lat lon)) log) = Inr (Some pd)"
    and "py_getitem2 pd ''properties'' ''forecast'' = Inr url"
    and "fst (make_nws_request net url (log @ [JStr (points_url lat lon)])) = Inr (Some fd)"
    and "truthy fd"
  shows "get_forecast rc net lat lon log
     = (forecast_reply rc fd, log @ [JStr (points_url lat lon), url])"
  using make_nws_request_pair [OF assms(1)] make_nws_request_pair [OF assms(3)]
    getitem2_truthy [OF assms(2)] assms(2) assms(4)
  by (simp add: get_forecast_def)

lemma forecast_reply_list:
  "py_getitem2 fd ''properties'' ''periods'' = Inr (JArr ps) \<Longrightarrow>
   forecast_reply rc fd
     = bind_exn (map_exn (format_period rc) (take 5 ps)) (\<lambda>bs. Inr (join separator bs))"
  by (cases "map_exn (format_period rc) (take 5 ps)")
    (simp_all add: forecast_reply_def forecast_loop_map)

lemma example_period_block: "format_period rc example_period = Inr example_block"
  by (simp add: format_period_def example_period_def example_block_def str_int_def
      digit_char_def)

lemma example_period_wf: "well_formed_period example_period"
  by (simp add: example_period_def period_fields_def)

lemma example_points_fetch:
  "fst (make_nws_request (example_net periods) (JStr (points_url lat lon)) [])
     = Inr (Some example_points)"
  by (simp add: example_net_def make_nws_request_def try_request_def raise_for_status_def
      response_json_def net_script_def ok_response_def)

lemma example_forecast_fetch:
  "fst (make_nws_request (example_net periods) url [first]) = Inr (Some (example_forecast periods))"
  by (simp add: example_net_def make_nws_request_def try_request_def raise_for_status_def
      response_json_def net_script_def ok_response_def)

lemma example_points_url:
  "py_getitem2 example_points ''properties'' ''forecast'' = Inr (JStr ''https://api.weather.gov/f'')"
  by (simp add: py_getitem2_def example_points_def)

lemma example_forecast_periods:
  "py_getitem2 (example_forecast periods) ''properties'' ''periods'' = Inr (JArr periods)"
  by (simp add: py_getitem2_def example_forecast_def)

lemma split_lines_nonempty: "split_lines s \<noteq> []"
  by (induction s) (auto split: list.splits)

lemma split_lines_append:
  "split_lines (a @ CHR 0x0A # b) = split_lines a @ split_lines b"
proof (induction a)
  case Nil
  then show ?case by simp
next
  case (Cons c a)
  then show ?case
    using split_lines_nonempty [of a] by (auto split: list.splits)
qed

lemma separator_lines_append:
  "separator_lines (a @ ''\<newline>---\<newline>'' @ b) = separator_lines a + 1 + separator_lines b"
proof -
  have "split_lines (a @ ''\<newline>---\<newline>'' @ b) = split_lines a @ split_lines (''---'' @ CHR 0x0A # b)"
    using split_lines_append [of a "''---'' @ CHR 0x0A # b"] by simp
  also have "split_lines (''---'' @ CHR 0x0A # b) = split_lines ''---'' @ split_lines b"
    by (rule split_lines_append)
  finally show ?thesis
    by (simp add: separator_lines_def)
qed

lemma separator_lines_join:
  "separator_lines (join ''\<newline>---\<newline>'' bs)
     = sum_list (map separator_lines bs) + (length bs - 1)"
proof (induction bs rule: induct_list012)
  case 1
  then show ?case by (simp add: separator_lines_def)
next
  case (2 x)
  then show ?case by simp
next
  case (3 x y ys)
  have "join ''\<newline>---\<newline>'' (x # y # ys) = x @ ''\<newline>---\<newline>'' @ join ''\<newline>---\<newline>'' (y # ys)"
    by simp
  then have "separator_lines (join ''\<newline>---\<newline>'' (x # y # ys))
      = separator_lines x + 1 + separator_lines (join ''\<newline>---\<newline>'' (y # ys))"
    by (simp only: separator_lines_append)
  with 3 show ?case by simp
qed

lemma split_lines_four:
  assumes "CHR 0x0A \<notin> set l1" and "CHR 0x0A \<notin> set l2" and "CHR 0x0A \<notin> set l3"
    and "CHR 0x0A \<notin> set l4"
  shows "split_lines (l1 @ CHR 0x0A # l2 @ CHR 0x0A # l3 @ CHR 0x0A # l4) = [l1, l2, l3, l4]"
  using assms by (simp add: split_lines_append split_lines_plain del: split_lines.simps)

lemma four_lines_no_separator:
  assumes "CHR 0x0A \<notin> set l1" and "CHR 0x0A \<notin> set l2" and "CHR 0x0A \<notin> set l3"
    and "CHR 0x0A \<notin> set l4"
    and "l1 \<noteq> ''---''" and "l2 \<noteq> ''---''" and "l3 \<noteq> ''---''" and "l4 \<noteq> ''---''"
  shows "separator_lines (l1 @ CHR 0x0A # l2 @ CHR 0x0A # l3 @ CHR 0x0A # l4) = 0"
  using assms by (simp add: separator_lines_def split_lines_four del: split_lines.simps)

lemma format_period_plain:
  assumes "well_formed_period p" and "plain_period rc p"
  shows "\<exists>b. format_period rc p = Inr b \<and> separator_lines b = 0"
proof (cases p)
  case (JObj kvs)
  from assms(1) JObj obtain name temperature temperatureUnit windSpeed windDirection detailedForecast
    where f: "map_of kvs ''name'' = Some name" "map_of kvs ''temperature'' = Some temperature"
      "map_of kvs ''temperatureUnit'' = Some temperatureUnit"
      "map_of kvs ''windSpeed'' = Some windSpeed" "map_of kvs ''windDirection'' = Some windDirection"
      "map_of kvs ''detailedForecast'' = Some detailedForecast"
    by (auto simp: period_fields_def)
  define l1 where "l1 = py_str rc name @ '':''"
  define l2 where
    "l2 = ''  Temperature: '' @ py_str rc temperature @ degree_sign @ py_str rc temperatureUnit"
  define l3 where "l3 = ''  Wind: '' @ py_str rc windSpeed @ '' '' @ py_str rc windDirection"
  define l4 where "l4 = ''  Forecast: '' @ py_str rc detailedForecast"
  from assms(2) JObj f have nl: "CHR 0x0A \<notin> set l1" "CHR 0x0A \<notin> set l2"
    "CHR 0x0A \<notin> set l3" "CHR 0x0A \<notin> set l4"
    by (simp_all add: l1_def l2_def l3_def l4_def period_values_def period_fields_def
        degree_sign_def)
  have b: "format_period rc p = Inr (l1 @ CHR 0x0A # l2 @ CHR 0x0A # l3 @ CHR 0x0A # l4)"
    using JObj f by (simp add: format_period_def l1_def l2_def l3_def l4_def)
  have "l1 \<noteq> ''---''"
  proof
    assume "l1 = ''---''"
    then have "last l1 = last ''---''" by simp
    then show False by (simp add: l1_def)
  qed
  moreover have "l2 \<noteq> ''---''" "l3 \<noteq> ''---''" "l4 \<noteq> ''---''"
    by (simp_all add: l2_def l3_def l4_def)
  ultimately have "separator_lines (l1 @ CHR 0x0A # l2 @ CHR 0x0A # l3 @ CHR 0x0A # l4) = 0"
    using nl by (intro four_lines_no_separator)
  with b show ?thesis by simp
qed (use assms in simp_all)

lemma map_exn_plain:
  "list_all well_formed_period ps \<Longrightarrow> list_all (plain_period rc) ps \<Longrightarrow>
   map_exn (format_period rc) ps = Inr bs \<Longrightarrow> sum_list (map separator_lines bs) = 0"
proof (induction ps arbitrary: bs)
  case Nil
  then show ?case by auto
next
  case (Cons p ps)
  then obtain b where b: "format_period rc p = Inr b" and z: "separator_lines b = 0"
    using format_period_plain [of p rc] by auto
  from Cons.prems(1) obtain bs' where bs': "map_exn (format_period rc) ps = Inr bs'"
    using map_exn_wf [of ps rc] by auto
  with b Cons.prems(3) have "bs = b # bs'" by simp
  moreover from Cons bs' have "sum_list (map separator_lines bs') = 0" by simp
  ultimately show ?case using z by simp
qed

text \<open>
  C10. When both fetches succeed and \<open>properties.periods\<close> of the forecast is the empty
  list, \<open>get_forecast\<close> returns the empty string: no message stands in for it.
\<close>

theorem get_forecast_no_periods:
  assumes "fst (make_nws_request net (JStr (points_url lat lon)) log) = Inr (Some pd)"
    and "py_getitem2 pd ''properties'' ''forecast'' = Inr url"
    and "fst (make_nws_request net url (log @ [JStr (points_url lat lon)])) = Inr (Some fd)"
    and "py_getitem2 fd ''properties'' ''periods'' = Inr (JArr [])"
  shows "get_forecast rc net lat lon log = (Inr [], log @ [JStr (points_url lat lon), url])"
  using get_forecast_stage2 [OF assms(1) assms(2) assms(3) getitem2_truthy [OF assms(4)]]
    forecast_reply_list [OF assms(4)]
  by simp

theorem get_forecast_no_periods_witness:
  "get_forecast blank_repr (net_script [ok_response example_points, ok_response (example_forecast [])])
      ''39.7456'' ''-97.0892'' []
     = (Inr [], [JStr (points_url ''39.7456'' ''-97.0892''), JStr ''https://api.weather.gov/f''])"
  using get_forecast_no_periods [where
      net = "net_script [ok_response example_points, ok_response (example_forecast [])]"
      and lat = "''39.7456''" and lon = "''-97.0892''" and log = "[]" and rc = blank_repr
      and pd = example_points and url = "JStr ''https://api.weather.gov/f''"
      and fd = "example_forecast []"]
  by (simp add: make_nws_request_def try_request_def raise_for_status_def response_json_def
      net_script_def ok_response_def py_getitem2_def example_points_def example_forecast_def)

text \<open>
  C3. When both fetches succeed and \<open>properties.periods\<close> of the forecast is a list of n
  well-formed periods, \<open>get_forecast\<close> returns the formatted blocks of the first five
  periods joined by the line of three dashes: min n 5 blocks with min n 5 - 1 separators
  between them. The returned text has min n 5 - 1 lines of three dashes more than the
  blocks hold themselves, so exactly min n 5 - 1 such lines when no printed field value
  holds a newline. For n = 7 these are 5 blocks and 4 separators.
\<close>

theorem get_forecast_five_blocks:
  assumes "fst (make_nws_request net (JStr (points_url lat lon)) log) = Inr (Some pd)"
    and "py_getitem2 pd ''properties'' ''forecast'' = Inr url"
    and "fst (make_nws_request net url (log @ [JStr (points_url lat lon)])) = Inr (Some fd)"
    and "py_getitem2 fd ''properties'' ''periods'' = Inr (JArr ps)"
    and "list_all well_formed_period ps"
  shows "\<exists>blocks.
       fst (get_forecast rc net lat lon log) = Inr (join ''\<newline>---\<newline>'' blocks)
     \<and> map_exn (format_period rc) (take 5 ps) = Inr blocks
     \<and> length blocks = min (length ps) 5
     \<and> join ''\<newline>---\<newline>'' blocks = concat (map piece_text (spec_pieces blocks))
     \<and> length (filter is_sep (spec_pieces blocks)) = min (length ps) 5 - 1
     \<and> separator_lines (join ''\<newline>---\<newline>'' blocks)
         = sum_list (map separator_lines blocks) + (min (length ps) 5 - 1)
     \<and> (list_all (plain_period rc) ps \<longrightarrow>
          separator_lines (join ''\<newline>---\<newline>'' blocks) = min (length ps) 5 - 1)
     \<and> (length ps = 7 \<longrightarrow> length blocks = 5 \<and> length (filter is_sep (spec_pieces blocks)) = 4)"
proof -
  from assms(5) have wf5: "list_all well_formed_period (take 5 ps)"
    by (auto simp: list_all_iff dest: in_set_takeD)
  then obtain blocks where b: "map_exn (format_period rc) (take 5 ps) = Inr blocks"
    and l: "length blocks = length (take 5 ps)"
    using map_exn_wf by blast
  have "get_forecast rc net lat lon log
      = (forecast_reply rc fd, log @ [JStr (points_url lat lon), url])"
    using assms(1) assms(2) assms(3) getitem2_truthy [OF assms(4)] by (rule get_forecast_stage2)
  then have r: "fst (get_forecast rc net lat lon log) = Inr (join ''\<newline>---\<newline>'' blocks)"
    using forecast_reply_list [OF assms(4)] b by (simp add: separator_def)
  from l have n: "length blocks = min (length ps) 5" by simp
  have s: "separator_lines (join ''\<newline>---\<newline>'' blocks)
         = sum_list (map separator_lines blocks) + (min (length ps) 5 - 1)"
    using separator_lines_join [of blocks] n by simp
  have p: "list_all (plain_period rc) ps \<longrightarrow>
          separator_lines (join ''\<newline>---\<newline>'' blocks) = min (length ps) 5 - 1"
  proof
    assume "list_all (plain_period rc) ps"
    then have "list_all (plain_period rc) (take 5 ps)"
      by (auto simp: list_all_iff dest: in_set_takeD)
    then have "sum_list (map separator_lines blocks) = 0"
      using wf5 b by (intro map_exn_plain)
    with s show "separator_lines (join ''\<newline>---\<newline>'' blocks) = min (length ps) 5 - 1"
      by simp
  qed
  show ?thesis
    using r b n s p by (intro exI [of _ blocks]) (simp add: join_pieces count_seps)
qed

lemma example_period_plain: "plain_period rc example_period"
  by (simp add: example_period_def period_values_def period_fields_def str_int_def digit_char_def)

theorem get_forecast_five_blocks_witness:
  "fst (get_forecast blank_repr
        (example_net [example_period, example_period, example_period, example_period,
           example_period, example_period, example_period])
        ''39.7456'' ''-97.0892'' [])
     = Inr (example_block @ ''\<newline>---\<newline>'' @ example_block @ ''\<newline>---\<newline>''
        @ example_block @ ''\<newline>---\<newline>'' @ example_block @ ''\<newline>---\<newline>''
        @ example_block)
   \<and> separator_lines (example_block @ ''\<newline>---\<newline>'' @ example_block @ ''\<newline>---\<newline>''
        @ example_block @ ''\<newline>---\<newline>'' @ example_block @ ''\<newline>---\<newline>''
        @ example_block) = 4
   \<and> length (filter is_sep (spec_pieces
         [example_block, example_block, example_block, example_block, example_block])) = 4"
proof -
  let ?ps = "[example_period, example_period, example_period, example_period,
           example_period, example_period, example_period]"
  have wf: "list_all well_formed_period ?ps"
    by (simp add: example_period_wf)
  have pl: "list_all (plain_period blank_repr) ?ps"
    by (simp add: example_period_plain)
  have f1: "fst (make_nws_request (example_net ?ps)
        (JStr (points_url ''39.7456'' ''-97.0892'')) []) = Inr (Some example_points)"
    by (rule example_points_fetch)
  have f2: "fst (make_nws_request (example_net ?ps) (JStr ''https://api.weather.gov/f'')
        ([] @ [JStr (points_url ''39.7456'' ''-97.0892'')])) = Inr (Some (example_forecast ?ps))"
    by (simp add: example_forecast_fetch)
  obtain blocks where
    "fst (get_forecast blank_repr (example_net ?ps) ''39.7456'' ''-97.0892'' [])
       = Inr (join ''\<newline>---\<newline>'' blocks)"
    and "map_exn (format_period blank_repr) (take 5 ?ps) = Inr blocks"
    and "list_all (plain_period blank_repr) ?ps \<longrightarrow>
          separator_lines (join ''\<newline>---\<newline>'' blocks) = min (length ?ps) 5 - 1"
    using get_forecast_five_blocks [where rc = blank_repr,
        OF f1 example_points_url f2 example_forecast_periods wf]
    by blast
  with pl show ?thesis
    by (auto simp: example_period_block)
qed

text \<open>
  C6, as stated, fails twice. The empty dict as points response lacks
  \<open>properties.forecast\<close>, yet \<open>get_forecast\<close> returns the "unable to fetch" string. A sixth
  period that lacks five of its fields is never read, and \<open>get_forecast\<close> returns the five
  blocks before it.
\<close>

theorem get_forecast_unraised_shape:
  "get_forecast blank_repr (net_script [ok_response (JObj [])]) ''39.7456'' ''-97.0892'' []
     = (Inr ''Unable to fetch forecast data for this location.'',
        [JStr (points_url ''39.7456'' ''-97.0892'')])
   \<and> py_getitem2 (JObj []) ''properties'' ''forecast'' = Inl KeyError
   \<and> fst (get_forecast blank_repr
        (example_net [example_period, example_period, example_period, example_period,
           example_period, JObj [(''name'', JStr ''Later'')]])
        ''39.7456'' ''-97.0892'' [])
     = Inr (join separator
         [example_block, example_block, example_block, example_block, example_block])
   \<and> py_getitem (JObj [(''name'', JStr ''Later'')]) ''temperature'' = Inl KeyError"
  by (simp add: get_forecast_def forecast_reply_def example_net_def make_nws_request_def
      try_request_def raise_for_status_def response_json_def net_script_def ok_response_def
      py_getitem2_def example_points_def example_forecast_def example_period_block)

text \<open>
  C6, amended. Let the points fetch return a dict. When the dict is not empty and does not
  hold \<open>properties.forecast\<close>, \<open>get_forecast\<close> raises the fault of the lookup after the one
  request: \<open>KeyError\<close> when the key \<open>properties\<close> or the key \<open>forecast\<close> is missing,
  \<open>TypeError\<close> when \<open>properties\<close> is not a dict. When both fetches succeed and one of the
  first five entries of the list \<open>properties.periods\<close> is not a well-formed period,
  \<open>get_forecast\<close> raises; the fault is \<open>KeyError\<close> when those entries are all dicts, so that
  a field is missing. Nothing is put in the place of the missing field and no string is
  returned.
\<close>

lemma holds_forecast_url_lookup:
  "holds_forecast_url v = (\<exists>url. py_getitem2 v ''properties'' ''forecast'' = Inr url)"
proof (cases v)
  case (JObj kvs)
  show ?thesis
  proof (cases "map_of kvs ''properties''")
    case None
    with JObj show ?thesis by (simp add: py_getitem2_def)
  next
    case (Some p)
    with JObj show ?thesis
      by (cases p) (auto simp: py_getitem2_def split: option.splits)
  qed
qed (simp_all add: py_getitem2_def)

lemma lacking_forecast_url_fault:
  "\<not> holds_forecast_url (JObj kvs) \<Longrightarrow>
   py_getitem2 (JObj kvs) ''properties'' ''forecast''
     = Inl (case map_of kvs ''properties'' of
              None \<Rightarrow> KeyError
            | Some v \<Rightarrow> if is_dict v then KeyError else TypeError)"
proof (cases "map_of kvs ''properties''")
  case None
  then show ?thesis by (simp add: py_getitem2_def)
next
  case (Some p)
  assume "\<not> holds_forecast_url (JObj kvs)"
  with Some show ?thesis
    by (cases p) (auto simp: py_getitem2_def split: option.splits)
qed

theorem get_forecast_shape_fault:
  assumes "fst (make_nws_request net (JStr (points_url lat lon)) log) = Inr (Some (JObj kvs))"
  shows "holds_forecast_url (JObj kvs)
           = (\<exists>u. py_getitem2 (JObj kvs) ''properties'' ''forecast'' = Inr u)
     \<and> (kvs \<noteq> [] \<and> \<not> holds_forecast_url (JObj kvs) \<longrightarrow>
          get_forecast rc net lat lon log
            = (Inl (case map_of kvs ''properties'' of
                      None \<Rightarrow> KeyError
                    | Some v \<Rightarrow> if is_dict v then KeyError else TypeError),
               log @ [JStr (points_url lat lon)]))
     \<and> (py_getitem2 (JObj kvs) ''properties'' ''forecast'' = Inr url
          \<and> fst (make_nws_request net url (log @ [JStr (points_url lat lon)])) = Inr (Some fd)
          \<and> py_getitem2 fd ''properties'' ''periods'' = Inr (JArr ps)
          \<and> \<not> list_all well_formed_period (take 5 ps)
          \<longrightarrow> (\<exists>e. get_forecast rc net lat lon log
                      = (Inl e, log @ [JStr (points_url lat lon), url])
                    \<and> (list_all is_dict (take 5 ps) \<longrightarrow> e = KeyError)))"
proof (intro conjI impI)
  show "holds_forecast_url (JObj kvs)
           = (\<exists>u. py_getitem2 (JObj kvs) ''properties'' ''forecast'' = Inr u)"
    by (rule holds_forecast_url_lookup)
next
  assume a: "kvs \<noteq> [] \<and> \<not> holds_forecast_url (JObj kvs)"
  then have "py_getitem2 (JObj kvs) ''properties'' ''forecast''
     = Inl (case map_of kvs ''properties'' of
              None \<Rightarrow> KeyError
            | Some v \<Rightarrow> if is_dict v then KeyError else TypeError)"
    by (intro lacking_forecast_url_fault) simp
  with a show "get_forecast rc net lat lon log
            = (Inl (case map_of kvs ''properties'' of
                      None \<Rightarrow> KeyError
                    | Some v \<Rightarrow> if is_dict v then KeyError else TypeError),
               log @ [JStr (points_url lat lon)])"
    using make_nws_request_pair [OF assms] by (simp add: get_forecast_def)
next
  assume a: "py_getitem2 (JObj kvs) ''properties'' ''forecast'' = Inr url
          \<and> fst (make_nws_request net url (log @ [JStr (points_url lat lon)])) = Inr (Some fd)
          \<and> py_getitem2 fd ''properties'' ''periods'' = Inr (JArr ps)
          \<and> \<not> list_all well_formed_period (take 5 ps)"
  then have p: "py_getitem2 fd ''properties'' ''periods'' = Inr (JArr ps)" by simp
  from a obtain e where e: "map_exn (format_period rc) (take 5 ps) = Inl e"
    and k: "list_all is_dict (take 5 ps) \<longrightarrow> e = KeyError"
    using map_exn_ill by blast
  from a have u: "py_getitem2 (JObj kvs) ''properties'' ''forecast'' = Inr url"
    and s2: "fst (make_nws_request net url (log @ [JStr (points_url lat lon)])) = Inr (Some fd)"
    by simp_all
  have "get_forecast rc net lat lon log
      = (forecast_reply rc fd, log @ [JStr (points_url lat lon), url])"
    using assms u s2 getitem2_truthy [OF p] by (rule get_forecast_stage2)
  then have "get_forecast rc net lat lon log = (Inl e, log @ [JStr (points_url lat lon), url])"
    using forecast_reply_list [OF p] e by simp
  with k show "\<exists>e. get_forecast rc net lat lon log
                      = (Inl e, log @ [JStr (points_url lat lon), url])
                    \<and> (list_all is_dict (take 5 ps) \<longrightarrow> e = KeyError)"
    by blast
qed

lemma points_fetch_ok:
  "fst (make_nws_request (net_script [ok_response v]) url []) = Inr (Some v)"
  by (simp add: make_nws_request_def try_request_def raise_for_status_def
      response_json_def net_script_def ok_response_def)

theorem get_forecast_shape_fault_witness:
  "get_forecast blank_repr (net_script [ok_response (JObj [(''id'', JStr ''x'')])])
        ''39.7456'' ''-97.0892'' []
     = (Inl KeyError, [JStr (points_url ''39.7456'' ''-97.0892'')])
   \<and> get_forecast blank_repr (net_script [ok_response (JObj [(''properties'', JObj [])])])
        ''39.7456'' ''-97.0892'' []
     = (Inl KeyError, [JStr (points_url ''39.7456'' ''-97.0892'')])
   \<and> get_forecast blank_repr (net_script [ok_response (JObj [(''properties'', JNull)])])
        ''39.7456'' ''-97.0892'' []
     = (Inl TypeError, [JStr (points_url ''39.7456'' ''-97.0892'')])
   \<and> get_forecast blank_repr
        (example_net [example_period, JObj [(''name'', JStr ''Later'')]])
        ''39.7456'' ''-97.0892'' []
     = (Inl KeyError,
        [JStr (points_url ''39.7456'' ''-97.0892''), JStr ''https://api.weather.gov/f''])"
proof -
  let ?bad = "JObj [(''name'', JStr ''Later'')]"
  let ?u = "JStr (points_url ''39.7456'' ''-97.0892'')"
  have 3: "fst (make_nws_request (example_net [example_period, ?bad]) ?u [])
     = Inr (Some (JObj [(''properties'', JObj [(''forecast'', JStr ''https://api.weather.gov/f'')])]))"
    using example_points_fetch by (simp add: example_points_def)
  have bad: "\<not> list_all well_formed_period (take 5 [example_period, ?bad])"
    by (simp add: period_fields_def)
  have dicts: "list_all is_dict (take 5 [example_period, ?bad])"
    by (simp add: example_period_def)
  show ?thesis
    using get_forecast_shape_fault [OF points_fetch_ok [of "JObj [(''id'', JStr ''x'')]" ?u],
        where rc = blank_repr]
      get_forecast_shape_fault [OF points_fetch_ok [of "JObj [(''properties'', JObj [])]" ?u],
        where rc = blank_repr]
      get_forecast_shape_fault [OF points_fetch_ok [of "JObj [(''properties'', JNull)]" ?u],
        where rc = blank_repr]
      get_forecast_shape_fault [OF 3, where rc = blank_repr
        and url = "JStr ''https://api.weather.gov/f''"
        and fd = "example_forecast [example_period, ?bad]" and ps = "[example_period, ?bad]"]
      example_forecast_fetch [of "[example_period, ?bad]"] example_forecast_periods bad dicts
    by (auto simp: py_getitem2_def)
qed

section \<open>The joining rule in both tools\<close>

lemma get_alerts_joins:
  assumes "fst (make_nws_request net (JStr (alerts_url st)) log) = Inr (Some (JObj kvs))"
    and "map_of kvs ''features'' = Some (JArr (f # fs))"
    and "map_exn (format_alert rc) (f # fs) = Inr alerts"
  shows "fst (get_alerts rc net st log) = Inr (join separator alerts)"
proof -
  from assms(2) have "kvs \<noteq> []" by auto
  then show ?thesis
    using make_nws_request_pair [OF assms(1)] assms(2) assms(3)
    by (simp add: get_alerts_def py_in_dict del: py_in.simps map_exn.simps)
qed

lemma example_alert_format: "format_alert rc (example_alert event) = Inr (example_alert_block event)"
  by (simp add: format_alert_def example_alert_def example_alert_block_def)


lemma get_forecast_joins:
  assumes "fst (make_nws_request net (JStr (points_url lat lon)) log) = Inr (Some pd)"
    and "py_getitem2 pd ''properties'' ''forecast'' = Inr url"
    and "fst (make_nws_request net url (log @ [JStr (points_url lat lon)])) = Inr (Some fd)"
    and "py_getitem2 fd ''properties'' ''periods'' = Inr (JArr ps)"
    and "map_exn (format_period rc) (take 5 ps) = Inr blocks"
  shows "fst (get_forecast rc net lat lon log) = Inr (join separator blocks)"
  using get_forecast_stage2 [OF assms(1) assms(2) assms(3) getitem2_truthy [OF assms(4)]]
    forecast_reply_list [OF assms(4)] assms(5)
  by simp

text \<open>
  C7. The separator is a line of three dashes. Joining no block gives the empty string,
  joining one block gives the block, joining two puts one separator between them. In
  general the joined text is the blocks in order with one separator between each two
  neighbours: n blocks take n - 1 separators, the first and the last piece are blocks,
  a list cut anywhere into two non-empty parts joins to the two joined parts with one
  separator between them, and the joined text has n - 1 lines of three dashes more than
  the blocks hold themselves. Both tools use the rule: \<open>get_alerts\<close> returns its formatted
  alerts joined so, and \<open>get_forecast\<close> returns its formatted periods joined so.
\<close>

theorem join_separator_rule:
  "separator = CHR 0x0A # ''---'' @ [CHR 0x0A]
   \<and> join separator [] = []
   \<and> join separator [b] = b
   \<and> join separator [a, c] = a @ ''\<newline>---\<newline>'' @ c
   \<and> join separator bs = concat (map piece_text (spec_pieces bs))
   \<and> length (filter is_sep (spec_pieces bs)) = length bs - 1
   \<and> filter (\<lambda>p. \<not> is_sep p) (spec_pieces bs) = map Block bs
   \<and> take 1 (spec_pieces bs) = map Block (take 1 bs)
   \<and> take 1 (rev (spec_pieces bs)) = map Block (take 1 (rev bs))
   \<and> join separator ((x # xs) @ (y # ys))
       = join separator (x # xs) @ ''\<newline>---\<newline>'' @ join separator (y # ys)
   \<and> separator_lines (join separator bs) = sum_list (map separator_lines bs) + (length bs - 1)
   \<and> (fst (make_nws_request net (JStr (alerts_url st)) log) = Inr (Some (JObj kvs))
        \<and> map_of kvs ''features'' = Some (JArr (f # fs))
        \<and> map_exn (format_alert rc) (f # fs) = Inr alerts
        \<longrightarrow> fst (get_alerts rc net st log) = Inr (join ''\<newline>---\<newline>'' alerts))
   \<and> (fst (make_nws_request net (JStr (points_url lat lon)) log) = Inr (Some pd)
        \<and> py_getitem2 pd ''properties'' ''forecast'' = Inr url
        \<and> fst (make_nws_request net url (log @ [JStr (points_url lat lon)])) = Inr (Some fd)
        \<and> py_getitem2 fd ''properties'' ''periods'' = Inr (JArr ps)
        \<and> map_exn (format_period rc) (take 5 ps) = Inr blocks
        \<longrightarrow> fst (get_forecast rc net lat lon log) = Inr (join ''\<newline>---\<newline>'' blocks))"
proof (intro conjI impI)
  show "separator = CHR 0x0A # ''---'' @ [CHR 0x0A]"
    by (simp add: separator_def)
  show "join separator [a, c] = a @ ''\<newline>---\<newline>'' @ c"
    by (simp add: separator_def)
  show "join separator bs = concat (map piece_text (spec_pieces bs))"
    using join_pieces by (simp add: separator_def)
  show "length (filter is_sep (spec_pieces bs)) = length bs - 1"
    by (rule count_seps)
  show "filter (\<lambda>p. \<not> is_sep p) (spec_pieces bs) = map Block bs"
    by (rule blocks_of_pieces)
  show "take 1 (spec_pieces bs) = map Block (take 1 bs)"
    by (rule first_piece)
  show "take 1 (rev (spec_pieces bs)) = map Block (take 1 (rev bs))"
    by (rule last_piece)
  show "join separator ((x # xs) @ (y # ys))
       = join separator (x # xs) @ ''\<newline>---\<newline>'' @ join separator (y # ys)"
    using join_append [of separator x xs y ys] by (simp add: separator_def)
  show "separator_lines (join separator bs) = sum_list (map separator_lines bs) + (length bs - 1)"
    using separator_lines_join by (simp add: separator_def)
next
  assume "fst (make_nws_request net (JStr (alerts_url st)) log) = Inr (Some (JObj kvs))
        \<and> map_of kvs ''features'' = Some (JArr (f # fs))
        \<and> map_exn (format_alert rc) (f # fs) = Inr alerts"
  then have "fst (get_alerts rc net st log) = Inr (join separator alerts)"
    using get_alerts_joins by blast
  then show "fst (get_alerts rc net st log) = Inr (join ''\<newline>---\<newline>'' alerts)"
    by (simp add: separator_def)
next
  assume "fst (make_nws_request net (JStr (points_url lat lon)) log) = Inr (Some pd)
        \<and> py_getitem2 pd ''properties'' ''forecast'' = Inr url
        \<and> fst (make_nws_request net url (log @ [JStr (points_url lat lon)])) = Inr (Some fd)
        \<and> py_getitem2 fd ''properties'' ''periods'' = Inr (JArr ps)
        \<and> map_exn (format_period rc) (take 5 ps) = Inr blocks"
  then have "fst (get_forecast rc net lat lon log) = Inr (join separator blocks)"
    using get_forecast_joins by blast
  then show "fst (get_forecast rc net lat lon log) = Inr (join ''\<newline>---\<newline>'' blocks)"
    by (simp add: separator_def)
qed simp_all

theorem join_separator_rule_witness:
  "fst (get_alerts blank_repr
      (net_script [ok_response (JObj [(''features'', JArr [example_alert ''Flood'', example_alert ''Frost''])])])
      ''CA'' [])
     = Inr (example_alert_block ''Flood'' @ ''\<newline>---\<newline>'' @ example_alert_block ''Frost'')
   \<and> fst (get_forecast blank_repr (example_net [example_period, example_period])
        ''39.7456'' ''-97.0892'' [])
     = Inr (example_block @ ''\<newline>---\<newline>'' @ example_block)"
proof -
  let ?fs = "[example_alert ''Flood'', example_alert ''Frost'']"
  let ?kvs = "[(''features'', JArr ?fs)]"
  let ?ps = "[example_period, example_period]"
  have 1: "fst (make_nws_request (net_script [ok_response (JObj ?kvs)]) (JStr (alerts_url ''CA'')) [])
      = Inr (Some (JObj ?kvs))"
    by (rule points_fetch_ok)
  have 2: "map_of ?kvs ''features'' = Some (JArr ?fs)"
    by simp
  have 3: "map_exn (format_alert blank_repr) ?fs
      = Inr [example_alert_block ''Flood'', example_alert_block ''Frost'']"
    by (simp add: example_alert_format)
  have 4: "map_exn (format_period blank_repr) (take 5 ?ps) = Inr [example_block, example_block]"
    by (simp add: example_period_block)
  have 5: "fst (make_nws_request (example_net ?ps)
        (JStr (points_url ''39.7456'' ''-97.0892'')) []) = Inr (Some example_points)"
    by (rule example_points_fetch)
  have 6: "fst (make_nws_request (example_net ?ps) (JStr ''https://api.weather.gov/f'')
        ([] @ [JStr (points_url ''39.7456'' ''-97.0892'')])) = Inr (Some (example_forecast ?ps))"
    by (simp add: example_forecast_fetch)
  show ?thesis
    using join_separator_rule [where net = "net_script [ok_response (JObj ?kvs)]"
        and st = "''CA''" and log = "[]" and kvs = ?kvs and rc = blank_repr
        and f = "example_alert ''Flood''" and fs = "[example_alert ''Frost'']"
        and alerts = "[example_alert_block ''Flood'', example_alert_block ''Frost'']"]
      join_separator_rule [where net = "example_net ?ps" and log = "[]" and rc = blank_repr
        and lat = "''39.7456''" and lon = "''-97.0892''" and pd = example_points
        and url = "JStr ''https://api.weather.gov/f''" and fd = "example_forecast ?ps"
        and ps = ?ps and blocks = "[example_block, example_block]"]
      1 2 3 4 5 6 example_points_url example_forecast_periods [of ?ps]
    by simp
qed

end
